theory Spec2Isabelle
  imports Main "HOL-Library.Finite_Map" "HOL-Library.Sublist"
begin

section \<open>Python values\<close>

text \<open>
  A Python \<open>str\<close> is a sequence of Unicode code points. A code point is a natural
  number, so that \<open>\s\<close>, \<open>str.strip\<close> and \<open>re.IGNORECASE\<close> can be given their
  Unicode meaning; an ASCII literal of the source is written \<open>U ''...''\<close>.
\<close>

type_synonym codepoint = nat
type_synonym ustr = "codepoint list"

abbreviation U :: "string \<Rightarrow> ustr" where
  "U \<equiv> map of_char"

text \<open>The exceptions the modelled code can raise.\<close>

datatype exn =
    OSError | JSONDecodeError | TypeError | AttributeError | KeyError | IndexError
  | RuntimeError | RequestException | HTTPStatusError

text \<open>
  What \<open>json.load\<close> returns and \<open>json.dump\<close> accepts. A Python \<open>dict\<close> with string
  keys is a finite map (no claim depends on the order of its keys). Numbers play no
  role in the program and are integers here.
\<close>

datatype json =
    JNull | JBool bool | JNum int | JStr ustr | JArr "json list" | JObj "(ustr, json) fmap"

text \<open>\<open>str(user_id)\<close> for a Python \<open>int\<close>: the decimal digits, after a minus sign if negative.\<close>

function digits :: "nat \<Rightarrow> ustr" where
  "digits n = (if n < 10 then [48 + n] else digits (n div 10) @ [48 + n mod 10])"
  by pat_completeness auto
termination
  by (relation "measure id") auto

declare digits.simps [simp del]

definition str_int :: "int \<Rightarrow> ustr" where
  "str_int i = (if i < 0 then 45 # digits (nat (- i)) else digits (nat i))"

text \<open>
  The backing file \<open>templates.json\<close>, as the stores see it: absent, present but not
  readable (\<open>open\<close>/\<open>read_text\<close> raises), readable but not JSON (\<open>json.load\<close> raises), or
  holding a JSON document. Writing the file is taken to succeed.
\<close>

datatype backing_file = Missing | Unreadable | Corrupt | Holds json


section \<open>The template store of \<open>main.py\<close>\<close>

record UserTemplate =
  template :: json
  description :: json

text \<open>The state of a \<open>TemplateStore\<close>: the field \<open>_data\<close> and the file at \<open>path\<close>.\<close>

record TemplateStore =
  data :: "(ustr, UserTemplate) fmap"
  path :: backing_file

text \<open>\<open>payload.get(key, default)\<close>; only a dict has the method.\<close>

definition payload_get :: "json \<Rightarrow> ustr \<Rightarrow> json \<Rightarrow> exn + json" where
  "payload_get payload k dflt =
     (case payload of
        JObj p \<Rightarrow> Inr (case fmlookup p k of None \<Rightarrow> dflt | Some v \<Rightarrow> v)
      | _ \<Rightarrow> Inl AttributeError)"

text \<open>The \<open>UserTemplate\<close> that the loop of \<open>_load\<close> builds from one payload.\<close>

definition load_item :: "json \<Rightarrow> exn + UserTemplate" where
  "load_item payload =
     (case payload_get payload (U ''template'') (JStr []) of
        Inl e \<Rightarrow> Inl e
      | Inr t \<Rightarrow>
          (case payload_get payload (U ''description'') (JStr []) of
             Inl e \<Rightarrow> Inl e
           | Inr d \<Rightarrow> Inr \<lparr>template = t, description = d\<rparr>))"

text \<open>
  The loop of \<open>_load\<close> over \<open>raw.items()\<close>, started with the empty \<open>_data\<close>: every key
  gets the \<open>UserTemplate\<close> of its payload, unless one payload raises.
\<close>

definition load_items :: "(ustr, json) fmap \<Rightarrow> exn + (ustr, UserTemplate) fmap" where
  "load_items raw =
     (if fmpred (\<lambda>user_id payload. \<not> isl (load_item payload)) raw
      then Inr (fmmap (\<lambda>payload. projr (load_item payload)) raw)
      else Inl AttributeError)"

text \<open>The body of the \<open>try\<close> in \<open>_load\<close>.\<close>

definition load_try :: "backing_file \<Rightarrow> exn + (ustr, UserTemplate) fmap" where
  "load_try f =
     (case f of
        Missing \<Rightarrow> Inl OSError
      | Unreadable \<Rightarrow> Inl OSError
      | Corrupt \<Rightarrow> Inl JSONDecodeError
      | Holds raw \<Rightarrow>
          (case raw of JObj items \<Rightarrow> load_items items | _ \<Rightarrow> Inl AttributeError))"

text \<open>\<open>TemplateStore.__init__\<close> followed by \<open>_load\<close>: the store a process starts with.\<close>

definition TemplateStore_load :: "backing_file \<Rightarrow> TemplateStore" where
  "TemplateStore_load f =
     (if f = Missing then \<lparr>data = fmempty, path = f\<rparr>
      else (case load_try f of
              Inl e \<Rightarrow> \<lparr>data = fmempty, path = f\<rparr>
            | Inr d \<Rightarrow> \<lparr>data = d, path = f\<rparr>))"

definition asdict :: "UserTemplate \<Rightarrow> json" where
  "asdict tpl =
     JObj (fmupd (U ''description'') (description tpl) (fmupd (U ''template'') (template tpl) fmempty))"

definition TemplateStore_save :: "TemplateStore \<Rightarrow> TemplateStore" where
  "TemplateStore_save s = s\<lparr>path := Holds (JObj (fmmap asdict (data s)))\<rparr>"

definition TemplateStore_set_template :: "int \<Rightarrow> ustr \<Rightarrow> ustr \<Rightarrow> TemplateStore \<Rightarrow> TemplateStore" where
  "TemplateStore_set_template user_id tpl descr s =
     TemplateStore_save
       (s\<lparr>data := fmupd (str_int user_id) \<lparr>template = JStr tpl, description = JStr descr\<rparr> (data s)\<rparr>)"

definition TemplateStore_get_template :: "int \<Rightarrow> TemplateStore \<Rightarrow> UserTemplate option" where
  "TemplateStore_get_template user_id s = fmlookup (data s) (str_int user_id)"


section \<open>The template manager of \<open>mch_helper/bot.py\<close>\<close>

text \<open>
  \<open>self.templates\<close> is whatever \<open>json.load\<close> returned, and the file \<open>TEMPLATES_FILE\<close>.
\<close>

record TemplateManager =
  templates :: json
  templates_file :: backing_file

text \<open>\<open>load_templates\<close> has no handler: what \<open>open\<close> or \<open>json.load\<close> raises reaches the caller.\<close>

definition load_templates :: "backing_file \<Rightarrow> exn + json" where
  "load_templates f =
     (case f of
        Missing \<Rightarrow> Inr (JObj fmempty)
      | Unreadable \<Rightarrow> Inl OSError
      | Corrupt \<Rightarrow> Inl JSONDecodeError
      | Holds j \<Rightarrow> Inr j)"

text \<open>\<open>TemplateManager()\<close>, evaluated when the module is imported.\<close>

definition TemplateManager_init :: "backing_file \<Rightarrow> exn + TemplateManager" where
  "TemplateManager_init f =
     (case load_templates f of
        Inl e \<Rightarrow> Inl e
      | Inr j \<Rightarrow> Inr \<lparr>templates = j, templates_file = f\<rparr>)"

definition save_templates :: "TemplateManager \<Rightarrow> TemplateManager" where
  "save_templates m = m\<lparr>templates_file := Holds (templates m)\<rparr>"

text \<open>\<open>obj[key] = value\<close> for a string key: only a dict accepts it.\<close>

definition setitem :: "json \<Rightarrow> ustr \<Rightarrow> json \<Rightarrow> exn + json" where
  "setitem obj k v = (case obj of JObj d \<Rightarrow> Inr (JObj (fmupd k v d)) | _ \<Rightarrow> Inl TypeError)"

text \<open>\<open>obj[key]\<close> for a string key.\<close>

definition getitem :: "json \<Rightarrow> ustr \<Rightarrow> exn + json" where
  "getitem obj k =
     (case obj of
        JObj d \<Rightarrow> (case fmlookup d k of None \<Rightarrow> Inl KeyError | Some v \<Rightarrow> Inr v)
      | _ \<Rightarrow> Inl TypeError)"

text \<open>
  \<open>key in obj\<close> for a string key: a key of a dict, an element of a list, a substring of a
  string; the other values are not iterable.
\<close>

definition contains :: "json \<Rightarrow> ustr \<Rightarrow> exn + bool" where
  "contains obj k =
     (case obj of
        JObj d \<Rightarrow> Inr (k \<in> fmdom' d)
      | JArr xs \<Rightarrow> Inr (JStr k \<in> set xs)
      | JStr s \<Rightarrow> Inr (sublist k s)
      | _ \<Rightarrow> Inl TypeError)"

definition set_template :: "int \<Rightarrow> ustr \<Rightarrow> ustr \<Rightarrow> TemplateManager \<Rightarrow> exn + TemplateManager" where
  "set_template user_id example descr m =
     (case setitem (templates m) (str_int user_id)
             (JObj (fmupd (U ''description'') (JStr descr) (fmupd (U ''example'') (JStr example) fmempty))) of
        Inl e \<Rightarrow> Inl e
      | Inr t \<Rightarrow> Inr (save_templates (m\<lparr>templates := t\<rparr>)))"

definition update_description :: "int \<Rightarrow> ustr \<Rightarrow> TemplateManager \<Rightarrow> exn + TemplateManager" where
  "update_description user_id descr m =
     (case contains (templates m) (str_int user_id) of
        Inl e \<Rightarrow> Inl e
      | Inr False \<Rightarrow> Inr m
      | Inr True \<Rightarrow>
          (case getitem (templates m) (str_int user_id) of
             Inl e \<Rightarrow> Inl e
           | Inr entry \<Rightarrow>
               (case setitem entry (U ''description'') (JStr descr) of
                  Inl e \<Rightarrow> Inl e
                | Inr entry' \<Rightarrow>
                    (case setitem (templates m) (str_int user_id) entry' of
                       Inl e \<Rightarrow> Inl e
                     | Inr t \<Rightarrow> Inr (save_templates (m\<lparr>templates := t\<rparr>))))))"

definition get_template :: "int \<Rightarrow> TemplateManager \<Rightarrow> exn + json option" where
  "get_template user_id m =
     (case templates m of
        JObj d \<Rightarrow> Inr (fmlookup d (str_int user_id))
      | _ \<Rightarrow> Inl AttributeError)"


section \<open>Regular expressions, as Python's \<open>re\<close> matches them\<close>

text \<open>
  \<open>str.isspace\<close>, which is also what \<open>\s\<close> matches in a \<open>str\<close> pattern: the
  white space of Unicode.
\<close>

definition isspace :: "codepoint \<Rightarrow> bool" where
  "isspace c \<longleftrightarrow>
     c \<in> set [9, 10, 11, 12, 13, 28, 29, 30, 31, 32, 133, 160, 5760,
              8192, 8193, 8194, 8195, 8196, 8197, 8198, 8199, 8200, 8201, 8202,
              8232, 8233, 8239, 8287, 12288]"

text \<open>
  The code points that a literal of a pattern matches under \<open>re.IGNORECASE\<close>. The table
  holds the ASCII letters (with the three letters that have further Unicode variants)
  and the cased characters of the phrase in \<open>format_contact_links\<close>; every other
  character of the source's patterns is uncased and matches itself only.
\<close>

definition ignorecase_class :: "codepoint \<Rightarrow> codepoint list" where
  "ignorecase_class p =
     (let l = (if 65 \<le> p \<and> p \<le> 90 then p + 32 else p) in
      if l = 115 then [115, 83, 383]
      else if l = 105 then [105, 73, 304, 305]
      else if l = 107 then [107, 75, 8490]
      else if 97 \<le> l \<and> l \<le> 122 then [l, l - 32]
      else if p = 197 \<or> p = 229 then [197, 229, 8491]
      else if p = 199 then [199, 231]
      else if p = 225 then [193, 225]
      else if p = 227 then [195, 227]
      else if p = 230 then [198, 230]
      else if p = 233 then [201, 233]
      else if p = 937 then [937, 969, 8486]
      else [p])"

datatype cset =
    Chr codepoint
  | ChrI codepoint
  | NotChr codepoint
  | OneOf "codepoint list"
  | Space
  | NonSpace

text \<open>
  \<open>Chr c\<close> is the literal \<open>c\<close>, \<open>ChrI c\<close> the literal under \<open>re.IGNORECASE\<close>,
  \<open>NotChr c\<close> is \<open>[^c]\<close>, \<open>OneOf cs\<close> is \<open>[cs]\<close>, \<open>Space\<close> is \<open>\s\<close> and
  \<open>NonSpace\<close> is \<open>\S\<close> (or \<open>[^\s]\<close>).
\<close>

fun cmatch :: "cset \<Rightarrow> codepoint \<Rightarrow> bool" where
  "cmatch (Chr c) x = (x = c)"
| "cmatch (ChrI c) x = (x \<in> set (ignorecase_class c))"
| "cmatch (NotChr c) x = (x \<noteq> c)"
| "cmatch (OneOf cs) x = (x \<in> set cs)"
| "cmatch Space x = isspace x"
| "cmatch NonSpace x = (\<not> isspace x)"

text \<open>
  The constructs the source's patterns use: one character of a set, a greedy \<open>*\<close> on
  a set, concatenation, ordered alternation, \<open>^\<close> and \<open>$\<close> (without \<open>re.MULTILINE\<close>),
  the negative lookahead \<open>(?!r)\<close>, the negative lookbehind \<open>(?<!lit)\<close> on a literal, the
  empty pattern, and \<open>Mark\<close>, which records where the last group of a pattern opens.
\<close>

datatype re =
    One cset
  | Star cset
  | Seq re re
  | Alt re re
  | Bol
  | Eol
  | NotAhead re
  | NotBehind ustr
  | Mark
  | Eps

text \<open>
  A matcher state: the text before the position (reversed), the text from the position
  on, and the mark.
\<close>

type_synonym mstate = "ustr \<times> ustr \<times> nat"

text \<open>
  Greedy repetition: take the longest run first and give characters back one at a
  time while the rest of the pattern (the continuation \<open>k\<close>) fails.
\<close>

fun star :: "cset \<Rightarrow> (mstate \<Rightarrow> mstate option) \<Rightarrow> ustr \<Rightarrow> ustr \<Rightarrow> nat \<Rightarrow> mstate option" where
  "star c k bef [] mk = k (bef, [], mk)"
| "star c k bef (x # xs) mk =
     (if cmatch c x
      then (case star c k (x # bef) xs mk of
              Some r \<Rightarrow> Some r
            | None \<Rightarrow> k (bef, x # xs, mk))
      else k (bef, x # xs, mk))"

text \<open>
  The backtracking matcher: \<open>rmatch r k st\<close> is the first way, in Python's order of
  preference, to match \<open>r\<close> at \<open>st\<close> such that the continuation \<open>k\<close> accepts what
  follows. \<open>$\<close> holds at the end of the text and before a final newline.
\<close>

primrec rmatch :: "re \<Rightarrow> (mstate \<Rightarrow> mstate option) \<Rightarrow> mstate \<Rightarrow> mstate option" where
  "rmatch (One c) k st =
     (case st of
        (bef, [], mk) \<Rightarrow> None
      | (bef, x # xs, mk) \<Rightarrow> if cmatch c x then k (x # bef, xs, mk) else None)"
| "rmatch (Star c) k st = (case st of (bef, s, mk) \<Rightarrow> star c k bef s mk)"
| "rmatch (Seq a b) k st = rmatch a (rmatch b k) st"
| "rmatch (Alt a b) k st = (case rmatch a k st of Some r \<Rightarrow> Some r | None \<Rightarrow> rmatch b k st)"
| "rmatch Bol k st = (case st of (bef, s, mk) \<Rightarrow> if bef = [] then k st else None)"
| "rmatch Eol k st = (case st of (bef, s, mk) \<Rightarrow> if s = [] \<or> s = [10] then k st else None)"
| "rmatch (NotAhead a) k st = (case rmatch a Some st of Some r \<Rightarrow> None | None \<Rightarrow> k st)"
| "rmatch (NotBehind l) k st =
     (case st of (bef, s, mk) \<Rightarrow> if prefix (rev l) bef then None else k st)"
| "rmatch Mark k st = (case st of (bef, s, mk) \<Rightarrow> k (bef, s, length bef))"
| "rmatch Eps k st = k st"

text \<open>Pattern building: a literal string, with and without \<open>re.IGNORECASE\<close>, \<open>c?\<close>, \<open>c+\<close>, \<open>c{3,}\<close>.\<close>

definition lit :: "ustr \<Rightarrow> re" where
  "lit s = foldr (\<lambda>c r. Seq (One (Chr c)) r) s Eps"

definition liti :: "ustr \<Rightarrow> re" where
  "liti s = foldr (\<lambda>c r. Seq (One (ChrI c)) r) s Eps"

definition seqs :: "re list \<Rightarrow> re" where
  "seqs rs = foldr Seq rs Eps"

definition Opt :: "cset \<Rightarrow> re" where
  "Opt c = Alt (One c) Eps"

definition Plus :: "cset \<Rightarrow> re" where
  "Plus c = Seq (One c) (Star c)"

definition Rep3 :: "cset \<Rightarrow> re" where
  "Rep3 c = Seq (One c) (Seq (One c) (Seq (One c) (Star c)))"

text \<open>
  One attempt of \<open>re\<close>'s search at a position: the length of the match and the offset
  of the mark in it. With \<open>must_advance\<close> an empty match is refused (and the matcher
  backtracks), as after an empty match that ended at this position.
\<close>

definition find_at :: "re \<Rightarrow> bool \<Rightarrow> ustr \<Rightarrow> ustr \<Rightarrow> (nat \<times> nat) option" where
  "find_at r must_advance bef s =
     (case rmatch r
             (\<lambda>st. case st of (bef', s', mk) \<Rightarrow>
                if must_advance \<and> length s' = length s then None else Some st)
             (bef, s, length bef) of
        None \<Rightarrow> None
      | Some (bef', s', mk) \<Rightarrow> Some (length s - length s', mk - length bef))"

text \<open>
  The scan that \<open>re.sub\<close> and \<open>re.findall\<close> share: the text cut into the characters
  that no match covers and the successive non-overlapping matches, left to right.
\<close>

datatype piece = Text codepoint | Hit ustr nat

function scan :: "re \<Rightarrow> bool \<Rightarrow> ustr \<Rightarrow> ustr \<Rightarrow> piece list" where
  "scan r must_advance bef s =
     (case find_at r must_advance bef s of
        None \<Rightarrow>
          (case s of
             [] \<Rightarrow> []
           | x # xs \<Rightarrow> Text x # scan r False (x # bef) xs)
      | Some (n, g) \<Rightarrow>
          if n = 0 then
            (if must_advance then
               (case s of [] \<Rightarrow> [] | x # xs \<Rightarrow> Text x # scan r False (x # bef) xs)
             else Hit [] g # scan r True bef s)
          else Hit (take n s) g # scan r False (rev (take n s) @ bef) (drop n s))"
  by pat_completeness auto
termination
  by (relation "measures [\<lambda>(r, adv, bef, s). length s, \<lambda>(r, adv, bef, s). if adv then 0 else 1]")
     (auto simp: find_at_def split: option.splits prod.splits if_splits)

declare scan.simps [simp del]

text \<open>
  \<open>re.sub(r, repl, text)\<close>; the replacement is a function of the match and of the
  mark's offset in it, so that \<open>m.group(1)\<close> and \<open>m.group(2)\<close> of a pattern \<open>(a)(b)\<close> are
  \<open>take g m\<close> and \<open>drop g m\<close>.
\<close>

definition re_sub :: "re \<Rightarrow> (ustr \<Rightarrow> nat \<Rightarrow> ustr) \<Rightarrow> ustr \<Rightarrow> ustr" where
  "re_sub r repl text =
     concat (map (\<lambda>p. case p of Text c \<Rightarrow> [c] | Hit m g \<Rightarrow> repl m g) (scan r False [] text))"

text \<open>\<open>re.findall(r, text)\<close> for a pattern without groups.\<close>

definition re_findall :: "re \<Rightarrow> ustr \<Rightarrow> ustr list" where
  "re_findall r text =
     concat (map (\<lambda>p. case p of Text c \<Rightarrow> [] | Hit m g \<Rightarrow> [m]) (scan r False [] text))"

text \<open>\<open>text.strip()\<close>, \<open>text.split('\n')\<close> and \<open>'\n'.join(lines)\<close>.\<close>

definition strip :: "ustr \<Rightarrow> ustr" where
  "strip s = rev (dropWhile isspace (rev (dropWhile isspace s)))"

fun split_lines :: "ustr \<Rightarrow> ustr list" where
  "split_lines [] = [[]]"
| "split_lines (x # xs) =
     (if x = 10 then [] # split_lines xs
      else (case split_lines xs of l # ls \<Rightarrow> (x # l) # ls | [] \<Rightarrow> [[x]]))"

fun join_lines :: "ustr list \<Rightarrow> ustr" where
  "join_lines [] = []"
| "join_lines [l] = l"
| "join_lines (l # ls) = l @ 10 # join_lines ls"


section \<open>\<open>VacancyProcessor\<close>: links and clean-up of the model's output\<close>

text \<open>The phrase of the first two patterns of \<open>format_contact_links\<close>, as the source file spells it.\<close>

definition phrase :: ustr where
  "phrase =
     [8211, 176, 8212, 199, 8211, 8734, 8212, 199, 8212, 229, 32, 8212, 225, 8211, 8734,
      8212, 197, 8212, 199, 8212, 229, 8212, 233, 32, 8211, 8747, 8211, 230, 8211, 186,
      8211, 8734, 8211, 937, 8211, 165, 8212, 227]"

text \<open>The anchor label of the third replacement.\<close>

definition link_label :: ustr where
  "link_label = [8212, 197, 8212, 197, 8212, 227, 8211, 170, 8211, 8747, 8211, 8734]"

text \<open>
  The three patterns are raw strings in which the classes are written with two
  backslashes: \<open>\\s*\<close>, \<open>\\w+\<close> and \<open>\\S+\<close> are a literal backslash (code point 92)
  followed by \<open>s*\<close>, \<open>w+\<close> and \<open>S+\<close>. The first two are compiled with \<open>re.IGNORECASE\<close>.
\<close>

definition contact_username_re :: re where
  "contact_username_re =
     seqs [liti phrase, Opt (ChrI 58), One (ChrI 92), Star (ChrI 115),
           Mark, One (ChrI 64), One (ChrI 92), Plus (ChrI 119)]"

definition contact_url_re :: re where
  "contact_url_re =
     seqs [liti phrase, Opt (ChrI 58), One (ChrI 92), Star (ChrI 115),
           Mark, liti (U ''http''), Opt (ChrI 115), liti (U ''://''), One (ChrI 92), Plus (ChrI 83)]"

definition bare_url_re :: re where
  "bare_url_re =
     seqs [NotBehind (U ''href='' @ [34]), NotBehind [34, 62],
           Mark, lit (U ''http''), Opt (Chr 115), lit (U ''://''), One (Chr 92), Plus (Chr 83)]"

definition format_contact_links :: "ustr \<Rightarrow> ustr" where
  "format_contact_links text0 =
     (let text1 = re_sub contact_username_re (\<lambda>m g. take g m @ drop g m) text0;
          text2 = re_sub contact_url_re
                    (\<lambda>m g. U ''<a href='' @ [34] @ drop g m @ [34] @ U ''>'' @ phrase @ U ''</a>'') text1;
          text3 = re_sub bare_url_re
                    (\<lambda>m g. U ''<a href='' @ [34] @ drop g m @ [34] @ U ''>'' @ link_label @ U ''</a>'') text2
      in text3)"

text \<open>The patterns of \<open>clean_html_for_telegram\<close>, in the order of the source.\<close>

definition fence_open_re :: re where
  "fence_open_re = seqs [Bol, Rep3 (Chr 96), Star Space]"

definition fence_close_re :: re where
  "fence_close_re = seqs [Star Space, Rep3 (Chr 96), Eol]"

definition br_re :: re where
  "br_re = seqs [lit (U ''<br''), Star Space, Opt (Chr 47), One (Chr 62)]"

definition p_open_re :: re where
  "p_open_re = seqs [lit (U ''<p''), Star (NotChr 62), One (Chr 62)]"

definition div_open_re :: re where
  "div_open_re = seqs [lit (U ''<div''), Star (NotChr 62), One (Chr 62)]"

definition span_re :: re where
  "span_re = seqs [One (Chr 60), Opt (Chr 47), lit (U ''span''), Star (NotChr 62), One (Chr 62)]"

text \<open>The alternatives of the lookahead \<open>(?!/?[biusa]|/?code|/?pre|/?blockquote|a\s)\<close>.\<close>

definition kept_tag_re :: re where
  "kept_tag_re =
     Alt (Seq (Opt (Chr 47)) (One (OneOf (U ''biusa''))))
    (Alt (Seq (Opt (Chr 47)) (lit (U ''code'')))
    (Alt (Seq (Opt (Chr 47)) (lit (U ''pre'')))
    (Alt (Seq (Opt (Chr 47)) (lit (U ''blockquote'')))
         (Seq (One (Chr 97)) (One Space)))))"

definition other_tag_re :: re where
  "other_tag_re = seqs [One (Chr 60), NotAhead kept_tag_re, Plus (NotChr 62), One (Chr 62)]"

definition vseti_url_re :: re where
  "vseti_url_re =
     seqs [liti (U ''http''), Opt (ChrI 115), liti (U ''://''), Star NonSpace,
           liti (U ''vseti''), One (ChrI 46), liti (U ''app''), Star NonSpace]"

definition vseti_re :: re where
  "vseti_re = seqs [liti (U ''vseti''), One (ChrI 46), liti (U ''app'')]"

definition newlines_re :: re where
  "newlines_re = Rep3 (Chr 10)"

definition service_word_re :: re where
  "service_word_re =
     seqs [Bol, Star Space, Alt (liti (U ''html'')) (liti (U ''body'')), Star Space,
           Opt (OneOf [58, 62, 45]), Star Space]"

text \<open>The block under the comment \<open>Remove unsupported tags\<close> (the tag rewrites and the removal).\<close>

definition remove_unsupported_tags :: "ustr \<Rightarrow> ustr" where
  "remove_unsupported_tags text0 =
     (let text1 = re_sub br_re (\<lambda>m g. [10]) text0;
          text2 = re_sub p_open_re (\<lambda>m g. [10]) text1;
          text3 = re_sub (lit (U ''</p>'')) (\<lambda>m g. [10]) text2;
          text4 = re_sub div_open_re (\<lambda>m g. [10]) text3;
          text5 = re_sub (lit (U ''</div>'')) (\<lambda>m g. [10]) text4;
          text6 = re_sub span_re (\<lambda>m g. []) text5;
          text7 = re_sub (lit (U ''<strong>'')) (\<lambda>m g. U ''<b>'') text6;
          text8 = re_sub (lit (U ''</strong>'')) (\<lambda>m g. U ''</b>'') text7;
          text9 = re_sub (lit (U ''<em>'')) (\<lambda>m g. U ''<i>'') text8;
          text10 = re_sub (lit (U ''</em>'')) (\<lambda>m g. U ''</i>'') text9;
          text11 = re_sub other_tag_re (\<lambda>m g. []) text10
      in text11)"

definition clean_html_for_telegram :: "ustr \<Rightarrow> ustr" where
  "clean_html_for_telegram text0 =
     (let text1 = re_sub fence_open_re (\<lambda>m g. []) text0;
          text2 = re_sub fence_close_re (\<lambda>m g. []) text1;
          text3 = remove_unsupported_tags text2;
          text4 = re_sub vseti_url_re (\<lambda>m g. []) text3;
          text5 = re_sub vseti_re (\<lambda>m g. []) text4;
          text6 = re_sub newlines_re (\<lambda>m g. [10, 10]) text5;
          text7 = re_sub service_word_re (\<lambda>m g. []) text6
      in strip text7)"

text \<open>
  What \<open>generate_message\<close> does to the model's text: links first, clean-up second.
\<close>

definition sanitize :: "ustr \<Rightarrow> ustr" where
  "sanitize text0 = clean_html_for_telegram (format_contact_links text0)"


section \<open>\<open>VacancyProcessor.extract_url_content\<close>\<close>

definition url_re :: re where
  "url_re = seqs [lit (U ''http''), Opt (Chr 115), lit (U ''://''), Plus NonSpace]"

text \<open>
  The page fetch is the environment: for a URL, either an exception (from
  \<open>requests.get\<close>, \<open>raise_for_status\<close> or the HTML parser) or the text that
  \<open>soup.get_text(separator='\n', strip=True)\<close> returns after the five kinds of element
  are removed. The result comes with the list of the URLs that were requested.
\<close>

type_synonym fetcher = "ustr \<Rightarrow> exn + ustr"

definition clean_lines :: "ustr \<Rightarrow> ustr" where
  "clean_lines text_content =
     join_lines (map strip (filter (\<lambda>line. strip line \<noteq> []) (split_lines text_content)))"

definition extract_url_content :: "fetcher \<Rightarrow> ustr \<Rightarrow> (ustr \<times> ustr option) \<times> ustr list" where
  "extract_url_content fetch text0 =
     (case re_findall url_re text0 of
        [] \<Rightarrow> ((text0, None), [])
      | url # others \<Rightarrow>
          (case fetch url of
             Inr text_content \<Rightarrow> ((clean_lines text_content, Some url), [url])
           | Inl e \<Rightarrow> ((text0, Some url), [url])))"


section \<open>The generation client\<close>

text \<open>
  The completion service is the environment. A request carries the credentials and
  the values that the prompt interpolates (the prompt's fixed text is left out); the
  service either does not answer (the HTTP call raises) or answers with a status and
  a body, \<open>None\<close> when the body is not JSON (\<open>response.json()\<close> raises). Every function
  returns, with its result, the list of the requests it sent.
\<close>

record completion_request =
  req_api_key :: ustr
  req_folder_id :: ustr
  req_example :: ustr
  req_description :: ustr
  req_vacancy_text :: ustr
  req_contact_info :: "ustr option"

datatype reply = NoReply | Reply nat "json option"

type_synonym service = "completion_request \<Rightarrow> reply"

definition bind_exn :: "exn + 'a \<Rightarrow> ('a \<Rightarrow> exn + 'b) \<Rightarrow> exn + 'b" where
  "bind_exn x f = (case x of Inl e \<Rightarrow> Inl e | Inr a \<Rightarrow> f a)"

text \<open>\<open>obj[0]\<close>: the first element of a list, the first character of a string.\<close>

definition getitem0 :: "json \<Rightarrow> exn + json" where
  "getitem0 obj =
     (case obj of
        JArr xs \<Rightarrow> (case xs of [] \<Rightarrow> Inl IndexError | x # _ \<Rightarrow> Inr x)
      | JStr s \<Rightarrow> (case s of [] \<Rightarrow> Inl IndexError | c # _ \<Rightarrow> Inr (JStr [c]))
      | JObj d \<Rightarrow> Inl KeyError
      | _ \<Rightarrow> Inl TypeError)"

text \<open>\<open>obj.strip()\<close>: only a string has the method.\<close>

definition json_strip :: "json \<Rightarrow> exn + ustr" where
  "json_strip obj = (case obj of JStr s \<Rightarrow> Inr (strip s) | _ \<Rightarrow> Inl AttributeError)"

text \<open>\<open>result['result']['alternatives'][0]['message']['text'].strip()\<close>\<close>

definition first_completion_text :: "json \<Rightarrow> exn + ustr" where
  "first_completion_text result =
     bind_exn (getitem result (U ''result'')) (\<lambda>a.
     bind_exn (getitem a (U ''alternatives'')) (\<lambda>b.
     bind_exn (getitem0 b) (\<lambda>c.
     bind_exn (getitem c (U ''message'')) (\<lambda>d.
     bind_exn (getitem d (U ''text'')) json_strip))))"

text \<open>The four fixed pieces of the message of \<open>_generate_simple_message\<close>.\<close>

definition simple_banner :: ustr where
  "simple_banner =
     [8218, 246, 8224, 212, 8719, 232, 32, 65, 73, 32, 8211, 8805, 8211, 181, 8211, 937, 8211,
      181, 8212, 196, 8211, 8734, 8212, 220, 8211, 8719, 8212, 232, 32, 8211, 937, 8211, 181,
      8211, 165, 8211, 230, 8212, 197, 8212, 199, 8212, 201, 8211, 248, 8211, 937, 8211, 8734,
      46, 32, 8211, 252, 8211, 230, 8211, 8747, 8211, 8734, 8211, 8721, 8212, 227, 8211, 8804,
      8211, 8734, 8212, 233, 32, 8211, 248, 8212, 196, 8211, 8719, 8211, 186, 8211, 181, 8212,
      196, 58, 10, 10]"

definition simple_example_header :: ustr where
  "simple_example_header =
     [42, 42, 8211, 237, 8211, 8734, 8212, 224, 32, 8211, 248, 8212, 196, 8211, 8719, 8211, 186,
      8211, 181, 8212, 196, 58, 42, 42, 10]"

definition simple_vacancy_header :: ustr where
  "simple_vacancy_header =
     [42, 42, 8211, 249, 8211, 230, 8211, 8804, 8211, 8734, 8212, 232, 32, 8211, 8804, 8211,
      8734, 8211, 8747, 8211, 8734, 8211, 937, 8212, 197, 8211, 8719, 8212, 232, 58, 42, 42, 10]"

definition simple_footer :: ustr where
  "simple_footer =
     [63743, 252, 237, 176, 32, 8211, 249, 8211, 8734, 8212, 197, 8212, 199, 8212, 196, 8211,
      230, 8211, 960, 8212, 199, 8211, 181, 32, 89, 97, 110, 100, 101, 120, 32, 65, 80, 73, 32,
      8211, 165, 8211, 170, 8212, 232, 32, 8211, 8734, 8211, 8804, 8212, 199, 8211, 230, 8211,
      186, 8211, 8734, 8212, 199, 8211, 8719, 8212, 225, 8211, 181, 8212, 197, 8211, 8747, 8211,
      230, 8211, 960, 32, 8211, 8805, 8211, 181, 8211, 937, 8211, 181, 8212, 196, 8211, 8734,
      8212, 220, 8211, 8719, 8211, 8719, 32, 8211, 8804, 32, 8212, 197, 8212, 199, 8211, 8719,
      8211, 170, 8211, 181, 32, 8211, 248, 8212, 196, 8211, 8719, 8211, 186, 8211, 181, 8212,
      196, 8211, 8734, 46]"

definition generate_simple_message :: "ustr \<Rightarrow> ustr \<Rightarrow> ustr option \<Rightarrow> ustr" where
  "generate_simple_message vacancy_text example contact_info =
     simple_banner
     @ simple_example_header @ example @ [10, 10]
     @ simple_vacancy_header @ vacancy_text @ [10, 10]
     @ simple_footer"

text \<open>A credential read from the environment is unset, or set and possibly empty.\<close>

definition falsy :: "ustr option \<Rightarrow> bool" where
  "falsy v = (case v of None \<Rightarrow> True | Some s \<Rightarrow> s = [])"

text \<open>The body of the \<open>try\<close> of \<open>generate_message\<close> (\<open>bot.py\<close>), after the request is sent.\<close>

definition generate_try :: "reply \<Rightarrow> ustr \<Rightarrow> ustr \<Rightarrow> ustr option \<Rightarrow> exn + ustr" where
  "generate_try answer vacancy_text example contact_info =
     (case answer of
        NoReply \<Rightarrow> Inl RequestException
      | Reply status_code body \<Rightarrow>
          if status_code = 200 then
            (case body of
               None \<Rightarrow> Inl JSONDecodeError
             | Some result \<Rightarrow>
                 bind_exn (first_completion_text result) (\<lambda>generated_text.
                   Inr (clean_html_for_telegram (format_contact_links generated_text))))
          else Inr (generate_simple_message vacancy_text example contact_info))"

definition generate_message ::
  "ustr option \<Rightarrow> ustr option \<Rightarrow> service \<Rightarrow> ustr \<Rightarrow> ustr \<Rightarrow> ustr \<Rightarrow> ustr option
     \<Rightarrow> ustr \<times> completion_request list" where
  "generate_message api_key folder_id post vacancy_text example descr contact_info =
     (if falsy api_key \<or> falsy folder_id
      then (generate_simple_message vacancy_text example contact_info, [])
      else
        (let request = \<lparr>req_api_key = the api_key, req_folder_id = the folder_id,
                        req_example = example, req_description = descr,
                        req_vacancy_text = vacancy_text, req_contact_info = contact_info\<rparr>
         in (case generate_try (post request) vacancy_text example contact_info of
               Inl e \<Rightarrow> generate_simple_message vacancy_text example contact_info
             | Inr message \<Rightarrow> message,
             [request])))"

text \<open>
  \<open>VacancyBot._call_yandex_llm\<close> (\<open>main.py\<close>). \<open>raise_for_status\<close> of \<open>httpx\<close> raises
  for every status outside 200..299. The result is the returned text or the exception
  that reaches the caller.
\<close>

definition call_yandex_llm ::
  "ustr option \<Rightarrow> ustr \<Rightarrow> service \<Rightarrow> ustr \<Rightarrow> ustr \<Rightarrow> ustr
     \<Rightarrow> (exn + ustr) \<times> completion_request list" where
  "call_yandex_llm YANDEX_API_KEY YANDEX_FOLDER_ID post tpl descr vacancy_text =
     (if falsy YANDEX_API_KEY then (Inl RuntimeError, [])
      else
        (let request = \<lparr>req_api_key = the YANDEX_API_KEY, req_folder_id = YANDEX_FOLDER_ID,
                        req_example = tpl, req_description = descr,
                        req_vacancy_text = vacancy_text, req_contact_info = None\<rparr>
         in (case post request of
               NoReply \<Rightarrow> Inl RequestException
             | Reply status_code body \<Rightarrow>
                 if \<not> (200 \<le> status_code \<and> status_code \<le> 299) then Inl HTTPStatusError
                 else
                   (case body of
                      None \<Rightarrow> Inl JSONDecodeError
                    | Some d \<Rightarrow>
                        (case first_completion_text d of
                           Inl e \<Rightarrow> Inl RuntimeError
                         | Inr t \<Rightarrow> Inr t)),
             [request])))"


text \<open>Three services for the examples: one that is down, one that fails, one that answers nonsense.\<close>

definition service_down :: service where
  "service_down request = NoReply"

definition service_error :: service where
  "service_error request = Reply 500 None"

definition service_not_json :: service where
  "service_not_json request = Reply 200 None"

definition service_wrong_shape :: service where
  "service_wrong_shape request = Reply 200 (Some (JObj (fmupd (U ''result'') (JArr []) fmempty)))"


section \<open>Properties of the template stores\<close>

subsection \<open>\<open>str(user_id)\<close> tells users apart\<close>

lemma digits_small: "n < 10 \<Longrightarrow> digits n = [48 + n]"
  by (subst digits.simps) simp

lemma digits_big: "\<not> n < 10 \<Longrightarrow> digits n = digits (n div 10) @ [48 + n mod 10]"
  by (subst digits.simps) simp

lemma digits_nonempty: "digits n \<noteq> []"
proof (cases "n < 10")
  case True
  then show ?thesis by (simp add: digits_small)
next
  case False
  show ?thesis unfolding digits_big[OF False] by simp
qed

lemma digits_range: "c \<in> set (digits n) \<Longrightarrow> 48 \<le> c \<and> c \<le> 57"
proof (induction n rule: digits.induct)
  case (1 n)
  show ?case
  proof (cases "n < 10")
    case True
    with "1.prems" show ?thesis by (simp only: digits_small) simp
  next
    case False
    from "1.prems" have "c \<in> set (digits (n div 10) @ [48 + n mod 10])"
      by (simp only: digits_big[OF False])
    then have "c \<in> set (digits (n div 10)) \<or> c = 48 + n mod 10" by auto
    moreover have "n mod 10 < 10" by simp
    ultimately show ?thesis using False "1.IH" by fastforce
  qed
qed

lemma digits_inj: "digits n = digits m \<Longrightarrow> n = m"
proof (induction n arbitrary: m rule: digits.induct)
  case (1 n)
  show ?case
  proof (cases "n < 10")
    case True
    note n = digits_small[OF True]
    show ?thesis
    proof (cases "m < 10")
      case True
      from "1.prems" show ?thesis unfolding n digits_small[OF True] by simp
    next
      case False
      from "1.prems" have "[48 + n] = digits (m div 10) @ [48 + m mod 10]"
        unfolding n digits_big[OF False] .
      with digits_nonempty[of "m div 10"] show ?thesis by (cases "digits (m div 10)") auto
    qed
  next
    case False
    note n = digits_big[OF False]
    show ?thesis
    proof (cases "m < 10")
      case True
      from "1.prems" have "digits (n div 10) @ [48 + n mod 10] = [48 + m]"
        unfolding n digits_small[OF True] .
      with digits_nonempty[of "n div 10"] show ?thesis by (cases "digits (n div 10)") auto
    next
      case m: False
      from "1.prems" have "digits (n div 10) @ [48 + n mod 10] = digits (m div 10) @ [48 + m mod 10]"
        unfolding n digits_big[OF m] .
      then have "digits (n div 10) = digits (m div 10)" and md: "n mod 10 = m mod 10" by auto
      with "1.IH"[OF False] have "n div 10 = m div 10" by blast
      with md show ?thesis by (metis div_mult_mod_eq)
    qed
  qed
qed

lemma str_int_inj: "str_int i = str_int j \<Longrightarrow> i = j"
proof -
  assume eq: "str_int i = str_int j"
  have hd_digits: "hd (digits n) \<noteq> 45" for n
  proof -
    have "hd (digits n) \<in> set (digits n)" using digits_nonempty by simp
    from digits_range[OF this] show "hd (digits n) \<noteq> 45" by auto
  qed
  consider "i < 0" "j < 0" | "i < 0" "\<not> j < 0" | "\<not> i < 0" "j < 0" | "\<not> i < 0" "\<not> j < 0" by blast
  then show ?thesis
  proof cases
    case 1
    with eq have "digits (nat (- i)) = digits (nat (- j))" by (simp add: str_int_def)
    then have "nat (- i) = nat (- j)" by (rule digits_inj)
    with 1 show ?thesis by simp
  next
    case 2
    with eq have "45 # digits (nat (- i)) = digits (nat j)" by (simp add: str_int_def)
    then have "hd (digits (nat j)) = 45" by (metis list.sel(1))
    with hd_digits show ?thesis by blast
  next
    case 3
    with eq have "digits (nat i) = 45 # digits (nat (- j))" by (simp add: str_int_def)
    then have "hd (digits (nat i)) = 45" by (metis list.sel(1))
    with hd_digits show ?thesis by blast
  next
    case 4
    with eq have "digits (nat i) = digits (nat j)" by (simp add: str_int_def)
    then have "nat i = nat j" by (rule digits_inj)
    with 4 show ?thesis by simp
  qed
qed


subsection \<open>What is saved is what is loaded\<close>

lemma load_item_asdict: "load_item (asdict tpl) = Inr tpl"
  by (simp add: load_item_def asdict_def payload_get_def)

lemma load_items_saved: "load_items (fmmap asdict d) = Inr d"
proof -
  have "fmpred (\<lambda>user_id payload. \<not> isl (load_item payload)) (fmmap asdict d)"
    by (rule fmpredI) (auto simp: load_item_asdict)
  moreover have "fmmap (\<lambda>payload. projr (load_item payload)) (fmmap asdict d) = d"
    by (rule fmap_ext) (simp add: option.map_comp comp_def load_item_asdict option.map_ident)
  ultimately show ?thesis by (simp add: load_items_def)
qed

lemma TemplateStore_restart:
  "data (TemplateStore_load (path (TemplateStore_save s))) = data s"
  by (simp add: TemplateStore_load_def TemplateStore_save_def load_try_def load_items_saved)


subsection \<open>Writing a template and reading it back\<close>

text \<open>
  Claim C3. \<open>set_template\<close> followed by \<open>get_template\<close> for the same user returns the
  pair just written, and so does \<open>get_template\<close> on the store that a new process loads
  from the file: in \<open>main.py\<close> from every store, in \<open>bot.py\<close> from every store whose
  \<open>templates\<close> is a dict.
\<close>

theorem set_template_then_get_template:
  "TemplateStore_get_template user_id (TemplateStore_set_template user_id tpl descr s)
     = Some \<lparr>template = JStr tpl, description = JStr descr\<rparr>
   \<and> TemplateStore_get_template user_id
        (TemplateStore_load (path (TemplateStore_set_template user_id tpl descr s)))
     = Some \<lparr>template = JStr tpl, description = JStr descr\<rparr>
   \<and> (templates m = JObj t \<longrightarrow>
        (case set_template user_id tpl descr m of
           Inl e \<Rightarrow> False
         | Inr m' \<Rightarrow>
             get_template user_id m'
               = Inr (Some (JObj (fmupd (U ''description'') (JStr descr)
                                   (fmupd (U ''example'') (JStr tpl) fmempty))))
             \<and> (case TemplateManager_init (templates_file m') of
                   Inl e \<Rightarrow> False
                 | Inr m'' \<Rightarrow> get_template user_id m'' = get_template user_id m')))"
proof (intro conjI impI)
  show "TemplateStore_get_template user_id (TemplateStore_set_template user_id tpl descr s)
     = Some \<lparr>template = JStr tpl, description = JStr descr\<rparr>"
    by (simp add: TemplateStore_get_template_def TemplateStore_set_template_def TemplateStore_save_def)
  show "TemplateStore_get_template user_id
        (TemplateStore_load (path (TemplateStore_set_template user_id tpl descr s)))
     = Some \<lparr>template = JStr tpl, description = JStr descr\<rparr>"
    unfolding TemplateStore_get_template_def TemplateStore_set_template_def TemplateStore_restart
    by simp
  assume "templates m = JObj t"
  then show "case set_template user_id tpl descr m of
           Inl e \<Rightarrow> False
         | Inr m' \<Rightarrow>
             get_template user_id m'
               = Inr (Some (JObj (fmupd (U ''description'') (JStr descr)
                                   (fmupd (U ''example'') (JStr tpl) fmempty))))
             \<and> (case TemplateManager_init (templates_file m') of
                   Inl e \<Rightarrow> False
                 | Inr m'' \<Rightarrow> get_template user_id m'' = get_template user_id m')"
    by (simp add: set_template_def setitem_def get_template_def save_templates_def
        TemplateManager_init_def load_templates_def)
qed

theorem set_template_then_get_template_witness:
  "templates \<lparr>templates = JObj fmempty, templates_file = Missing\<rparr> = JObj fmempty
   \<and> (case set_template 7 (U ''T'') (U ''D'') \<lparr>templates = JObj fmempty, templates_file = Missing\<rparr> of
         Inl e \<Rightarrow> False
       | Inr m' \<Rightarrow>
           get_template 7 m'
             = Inr (Some (JObj (fmupd (U ''description'') (JStr (U ''D''))
                                 (fmupd (U ''example'') (JStr (U ''T'')) fmempty))))
           \<and> (case TemplateManager_init (templates_file m') of
                 Inl e \<Rightarrow> False
               | Inr m'' \<Rightarrow> get_template 7 m'' = get_template 7 m'))"
  using set_template_then_get_template
    [of 7 "U ''T''" "U ''D''" "\<lparr>data = fmempty, path = Missing\<rparr>"
        "\<lparr>templates = JObj fmempty, templates_file = Missing\<rparr>" fmempty]
  by simp

subsection \<open>Loading at start\<close>

text \<open>The store of \<open>main.py\<close> starts empty on a missing, unreadable or corrupt file.\<close>

lemma TemplateStore_load_tolerant:
  "data (TemplateStore_load Missing) = fmempty
   \<and> data (TemplateStore_load Unreadable) = fmempty
   \<and> data (TemplateStore_load Corrupt) = fmempty"
  by (simp add: TemplateStore_load_def load_try_def)

text \<open>
  Claim C4. Loading the store at start never fails, and a corrupt or unreadable file
  gives the empty store. The manager of \<open>bot.py\<close> does not do that: on a corrupt file
  \<open>json.load\<close> raises, on an unreadable one \<open>open\<close> raises, and nothing catches it.
\<close>

theorem TemplateManager_init_corrupt_raises:
  "TemplateManager_init Corrupt = Inl JSONDecodeError
   \<and> TemplateManager_init Unreadable = Inl OSError
   \<and> TemplateManager_init Missing = Inr \<lparr>templates = JObj fmempty, templates_file = Missing\<rparr>"
  by (simp add: TemplateManager_init_def load_templates_def)

subsection \<open>Updating the description\<close>

text \<open>
  Claim C9. \<open>update_description\<close> changes the \<open>description\<close> of the user's entry and
  nothing else: the other fields of the entry (the example among them) and the entry of
  every other user are as before, and the result is saved. For a user without an entry
  it changes nothing, and \<open>get_template\<close> still returns \<open>None\<close>.
\<close>

theorem update_description_frame:
  assumes "templates m = JObj t"
  shows "(fmlookup t (str_int user_id) = None \<longrightarrow>
            update_description user_id descr m = Inr m \<and> get_template user_id m = Inr None)
       \<and> (fmlookup t (str_int user_id) = Some (JObj entry) \<longrightarrow>
            (case update_description user_id descr m of
               Inl e \<Rightarrow> False
             | Inr m' \<Rightarrow>
                 get_template user_id m'
                   = Inr (Some (JObj (fmupd (U ''description'') (JStr descr) entry)))
                 \<and> fmlookup (fmupd (U ''description'') (JStr descr) entry) (U ''example'')
                     = fmlookup entry (U ''example'')
                 \<and> (\<forall>other. other \<noteq> user_id \<longrightarrow> get_template other m' = get_template other m)
                 \<and> templates_file m' = Holds (templates m')))"
proof (rule conjI; rule impI)
  assume "fmlookup t (str_int user_id) = None"
  with assms show "update_description user_id descr m = Inr m \<and> get_template user_id m = Inr None"
    by (simp add: update_description_def contains_def get_template_def fmdom'_notI)
next
  assume e: "fmlookup t (str_int user_id) = Some (JObj entry)"
  then have "str_int user_id \<in> fmdom' t" by (rule fmdom'I)
  with assms e have upd: "update_description user_id descr m
      = Inr (save_templates (m\<lparr>templates :=
               JObj (fmupd (str_int user_id) (JObj (fmupd (U ''description'') (JStr descr) entry)) t)\<rparr>))"
    by (simp add: update_description_def contains_def getitem_def setitem_def)
  have other: "get_template other (save_templates (m\<lparr>templates :=
               JObj (fmupd (str_int user_id) (JObj (fmupd (U ''description'') (JStr descr) entry)) t)\<rparr>))
         = get_template other m" if "other \<noteq> user_id" for other
  proof -
    from that have "str_int user_id \<noteq> str_int other" using str_int_inj by blast
    with assms show ?thesis by (simp add: get_template_def save_templates_def)
  qed
  show "case update_description user_id descr m of
               Inl e \<Rightarrow> False
             | Inr m' \<Rightarrow>
                 get_template user_id m'
                   = Inr (Some (JObj (fmupd (U ''description'') (JStr descr) entry)))
                 \<and> fmlookup (fmupd (U ''description'') (JStr descr) entry) (U ''example'')
                     = fmlookup entry (U ''example'')
                 \<and> (\<forall>other. other \<noteq> user_id \<longrightarrow> get_template other m' = get_template other m)
                 \<and> templates_file m' = Holds (templates m')"
    unfolding upd using other
    by (simp add: get_template_def save_templates_def)
qed

theorem update_description_frame_witness:
  "templates \<lparr>templates = JObj fmempty, templates_file = Missing\<rparr> = JObj fmempty
   \<and> fmlookup (fmempty :: (ustr, json) fmap) (str_int 7) = None
   \<and> update_description 7 (U ''D'') \<lparr>templates = JObj fmempty, templates_file = Missing\<rparr>
       = Inr \<lparr>templates = JObj fmempty, templates_file = Missing\<rparr>
   \<and> get_template 7 \<lparr>templates = JObj fmempty, templates_file = Missing\<rparr> = Inr None
   \<and> templates \<lparr>templates = JObj (fmupd (str_int 7) (JObj (fmupd (U ''example'') (JStr (U ''T'')) fmempty)) fmempty),
                 templates_file = Missing\<rparr>
       = JObj (fmupd (str_int 7) (JObj (fmupd (U ''example'') (JStr (U ''T'')) fmempty)) fmempty)
   \<and> fmlookup (fmupd (str_int 7) (JObj (fmupd (U ''example'') (JStr (U ''T'')) fmempty)) fmempty) (str_int 7)
       = Some (JObj (fmupd (U ''example'') (JStr (U ''T'')) fmempty))
   \<and> (case update_description 7 (U ''D'')
              \<lparr>templates = JObj (fmupd (str_int 7) (JObj (fmupd (U ''example'') (JStr (U ''T'')) fmempty)) fmempty),
               templates_file = Missing\<rparr> of
         Inl e \<Rightarrow> False
       | Inr m' \<Rightarrow>
           get_template 7 m'
             = Inr (Some (JObj (fmupd (U ''description'') (JStr (U ''D''))
                                 (fmupd (U ''example'') (JStr (U ''T'')) fmempty)))))"
  using update_description_frame
          [where m = "\<lparr>templates = JObj fmempty, templates_file = Missing\<rparr>"
             and t = fmempty and user_id = 7 and descr = "U ''D''"]
        update_description_frame
          [where m = "\<lparr>templates = JObj (fmupd (str_int 7) (JObj (fmupd (U ''example'') (JStr (U ''T'')) fmempty)) fmempty),
                        templates_file = Missing\<rparr>"
             and t = "fmupd (str_int 7) (JObj (fmupd (U ''example'') (JStr (U ''T'')) fmempty)) fmempty"
             and user_id = 7 and descr = "U ''D''"
             and entry = "fmupd (U ''example'') (JStr (U ''T'')) fmempty"]
  by (simp split: sum.splits)

end
